theory Spec2Isabelle
  imports Complex_Main "HOL-Library.AList"
begin

section \<open>BMR HC64 integration: data model\<close>

text \<open>
  The integration polls a heating controller through the client library \<^verbatim>\<open>pybmr\<close> and
  projects each snapshot onto Home Assistant entities.  Python's \<^verbatim>\<open>float\<close> temperatures
  are modelled as \<^typ>\<open>real\<close> (exact arithmetic); an attribute typed \<^verbatim>\<open>T | None\<close> is
  a \<^typ>\<open>'a option\<close>.

  The configuration keeps a circuit id as the text of a numeric text field and converts
  it with \<^verbatim>\<open>int(...)\<close> wherever the controller is addressed; the model keeps the
  integer that conversion yields, so a non-numeric id (a \<^verbatim>\<open>ValueError\<close> in the source)
  is outside the model.
\<close>

text \<open>The dict returned by \<^verbatim>\<open>Bmr.getCircuit\<close>, by the keys the coordinator reads.\<close>

record circuit_data =
  cd_id :: int
  cd_name :: string
  cd_enabled :: "bool option"
  cd_user_offset :: "real option"
  cd_max_offset :: "real option"
  cd_warning :: "bool option"
  cd_heating :: "bool option"
  cd_cooling :: "bool option"
  cd_low_mode :: "bool option"
  cd_summer_mode :: "bool option"
  cd_temperature :: "real option"
  cd_target_temperature :: "real option"

text \<open>
  The dict returned by \<^verbatim>\<open>Bmr.getCircuitSchedules\<close>; the repository reads only its
  \<^verbatim>\<open>"day_schedules"\<close> key (\<open>None\<close> when the key is absent).
\<close>

record circuit_schedules =
  day_schedules :: "int list option"

text \<open>\<^verbatim>\<open>class CircuitState\<close> (coordinator.py).\<close>

record circuit_state =
  cs_id :: int
  cs_name :: string
  cs_friendly_name :: string
  cs_enabled :: "bool option"
  cs_user_offset :: "real option"
  cs_max_offset :: "real option"
  cs_warning :: "bool option"
  cs_heating :: "bool option"
  cs_cooling :: "bool option"
  cs_low_mode :: "bool option"
  cs_summer_mode :: "bool option"
  cs_temperature :: "real option"
  cs_target_temperature :: "real option"
  cs_schedules :: "circuit_schedules option"

text \<open>
  The low-mode descriptor returned by \<^verbatim>\<open>Bmr.getLowMode\<close>: its \<^verbatim>\<open>"enabled"\<close> and
  \<^verbatim>\<open>"temperature"\<close> entries (the activation timestamp is a wall-clock value and is left
  out).
\<close>

record low_mode_descr =
  lm_enabled :: bool
  lm_temperature :: "real option"

text \<open>
  \<^verbatim>\<open>class BmrControllerState\<close>.  \<^verbatim>\<open>circuits\<close> is a Python dict: an association list
  in insertion order, written with \<^const>\<open>AList.update\<close> and read with \<^const>\<open>map_of\<close>.
\<close>

record controller_state =
  circuits :: "(int \<times> circuit_state) list"
  hdo :: "bool option"
  unique_id :: "string option"
  low_mode :: "low_mode_descr option"
  low_mode_assignments :: "bool list"
  summer_mode :: "bool option"
  summer_mode_assignments :: "bool list"

text \<open>A circuit sub-entry of the configuration: \<^verbatim>\<open>circuit_id\<close> and \<^verbatim>\<open>circuit_name\<close>.\<close>

record subentry =
  se_circuit_id :: int
  se_circuit_name :: string

text \<open>
  What a call of the client raises: \<^verbatim>\<open>TimeoutError\<close>, or any other exception with its
  \<^verbatim>\<open>args\<close> (the handlers look at \<^verbatim>\<open>args[0]\<close> only, compared with a string).
\<close>

datatype exn = TimeoutError | Exception "string list"

text \<open>What the integration's own routines raise.\<close>

datatype error =
    ConfigEntryNotReady
  | ConfigEntryAuthFailed
  | ConfigEntryError
  | NameError
  | IndexError
  | KeyError
  | AttributeError

text \<open>
  The outcomes of the client's read calls during one poll, in the order the coordinator
  issues them.
\<close>

record client =
  getUniqueId :: "exn + string option"
  getHDO :: "exn + bool option"
  getLowMode :: "exn + low_mode_descr option"
  getLowModeAssignments :: "exn + bool list"
  getSummerMode :: "exn + bool option"
  getSummerModeAssignments :: "exn + bool list"
  getCircuit :: "int \<Rightarrow> exn + circuit_data"
  getCircuitSchedules :: "int \<Rightarrow> exn + circuit_schedules"

section \<open>Coordinator (coordinator.py)\<close>

definition MAX_TEMPERATURE_DELTA :: real where
  "MAX_TEMPERATURE_DELTA = 5.0"

text \<open>
  \<^verbatim>\<open>sanity_check_circuit_state\<close>.  The last test is written
  \<^verbatim>\<open>abs(new - previous >= MAX_TEMPERATURE_DELTA)\<close>: the comparison is inside
  \<^verbatim>\<open>abs\<close>, so Python takes the absolute value of a \<^verbatim>\<open>bool\<close> (\<open>0\<close> or \<open>1\<close>) and
  tests that for truth.
\<close>

definition sanity_check_circuit_state :: "circuit_data \<Rightarrow> circuit_state option \<Rightarrow> bool" where
  "sanity_check_circuit_state circuit_data previous_circuit_state =
     (case previous_circuit_state of
        None \<Rightarrow> True
      | Some previous \<Rightarrow>
          if cd_id circuit_data \<noteq> cs_id previous then False
          else
            (case cd_temperature circuit_data of
               None \<Rightarrow> False
             | Some temperature \<Rightarrow>
                 if (case cs_temperature previous of
                       None \<Rightarrow> False
                     | Some previous_temperature \<Rightarrow>
                         \<bar>of_bool (temperature - previous_temperature \<ge> MAX_TEMPERATURE_DELTA) :: int\<bar> \<noteq> 0)
                 then False
                 else True))"

text \<open>The \<^verbatim>\<open>CircuitState(...)\<close> built for a circuit that passed the check.\<close>

definition make_circuit_state :: "circuit_data \<Rightarrow> string \<Rightarrow> circuit_schedules \<Rightarrow> circuit_state" where
  "make_circuit_state circuit_data circuit_name schedules =
     \<lparr> cs_id = cd_id circuit_data,
       cs_name = cd_name circuit_data,
       cs_friendly_name = circuit_name,
       cs_enabled = cd_enabled circuit_data,
       cs_user_offset = cd_user_offset circuit_data,
       cs_max_offset = cd_max_offset circuit_data,
       cs_warning = cd_warning circuit_data,
       cs_heating = cd_heating circuit_data,
       cs_cooling = cd_cooling circuit_data,
       cs_low_mode = cd_low_mode circuit_data,
       cs_summer_mode = cd_summer_mode circuit_data,
       cs_temperature = cd_temperature circuit_data,
       cs_target_temperature = cd_target_temperature circuit_data,
       cs_schedules = Some schedules \<rparr>"

text \<open>
  \<^verbatim>\<open>self.data.circuits.get(circuit_id) if self.data else None\<close>: the state of the
  circuit in the previous snapshot.
\<close>

definition previous_circuit_state :: "controller_state option \<Rightarrow> int \<Rightarrow> circuit_state option" where
  "previous_circuit_state data circuit_id =
     (case data of None \<Rightarrow> None | Some d \<Rightarrow> map_of (circuits d) circuit_id)"

text \<open>
  The loop over the configured sub-entries in \<^verbatim>\<open>_async_update_data\<close>; \<open>data\<close> is
  \<^verbatim>\<open>self.data\<close>, the previous snapshot (\<open>None\<close> before the first poll), \<open>acc\<close> the dict
  \<^verbatim>\<open>circuits\<close> under construction.  An exception of a client call leaves the loop.
\<close>

fun fetch_circuits ::
  "client \<Rightarrow> controller_state option \<Rightarrow> subentry list \<Rightarrow> (int \<times> circuit_state) list
    \<Rightarrow> exn + (int \<times> circuit_state) list" where
  "fetch_circuits bmr data [] acc = Inr acc"
| "fetch_circuits bmr data (sub # rest) acc =
     (case getCircuit bmr (se_circuit_id sub) of
        Inl e \<Rightarrow> Inl e
      | Inr circuit_data \<Rightarrow>
          (case getCircuitSchedules bmr (se_circuit_id sub) of
             Inl e \<Rightarrow> Inl e
           | Inr schedules \<Rightarrow>
               if sanity_check_circuit_state circuit_data
                    (previous_circuit_state data (se_circuit_id sub))
               then fetch_circuits bmr data rest
                      (AList.update (se_circuit_id sub)
                         (make_circuit_state circuit_data (se_circuit_name sub) schedules) acc)
               else fetch_circuits bmr data rest acc))"

text \<open>The body of the \<^verbatim>\<open>try\<close> block of \<^verbatim>\<open>_async_update_data\<close>.\<close>

definition fetch_state :: "client \<Rightarrow> controller_state option \<Rightarrow> subentry list \<Rightarrow> exn + controller_state" where
  "fetch_state bmr data subentries =
     (case getUniqueId bmr of Inl e \<Rightarrow> Inl e | Inr uid \<Rightarrow>
      (case getHDO bmr of Inl e \<Rightarrow> Inl e | Inr h \<Rightarrow>
       (case getLowMode bmr of Inl e \<Rightarrow> Inl e | Inr lm \<Rightarrow>
        (case getLowModeAssignments bmr of Inl e \<Rightarrow> Inl e | Inr lma \<Rightarrow>
         (case getSummerMode bmr of Inl e \<Rightarrow> Inl e | Inr sm \<Rightarrow>
          (case getSummerModeAssignments bmr of Inl e \<Rightarrow> Inl e | Inr sma \<Rightarrow>
           (case fetch_circuits bmr data subentries [] of Inl e \<Rightarrow> Inl e | Inr cs \<Rightarrow>
              Inr \<lparr> circuits = cs, hdo = h, unique_id = uid, low_mode = lm,
                    low_mode_assignments = lma, summer_mode = sm,
                    summer_mode_assignments = sma \<rparr>)))))))"

text \<open>
  Naive local date-times as microseconds since the first midnight of the calendar, so
  that \<^verbatim>\<open>.date()\<close> is the day number.
\<close>

definition timedelta_minutes :: "int \<Rightarrow> int" where
  "timedelta_minutes m = m * 60 * 1000000"

definition date :: "int \<Rightarrow> int" where
  "date dt = dt div (86400 * 1000000)"

definition auth_failed_message :: string where
  "auth_failed_message = ''Authentication failed, check username/password''"

text \<open>
  The names bound at module level when the handlers run: the imports, assignments and
  definitions of coordinator.py and of \<^verbatim>\<open>__init__.py\<close>.  coordinator.py imports
  \<^verbatim>\<open>timedelta\<close> from \<^verbatim>\<open>datetime\<close> but not \<^verbatim>\<open>datetime\<close>; \<^verbatim>\<open>__init__.py\<close> imports neither.
\<close>

definition coordinator_globals :: "string list" where
  "coordinator_globals =
     [''dataclass'', ''timedelta'', ''logging'', ''Any'', ''Bmr'', ''ConfigEntry'', ''CONF_URL'',
      ''HomeAssistant'', ''ConfigEntryAuthFailed'', ''ConfigEntryError'', ''ConfigEntryNotReady'',
      ''DataUpdateCoordinator'', ''CONF_CIRCUIT_ID'', ''CONF_CIRCUIT_NAME'', ''DOMAIN'', ''_LOGGER'',
      ''MAX_TEMPERATURE_DELTA'', ''CircuitState'', ''BmrControllerState'', ''BmrUpdateCoordinator'']"

definition init_globals :: "string list" where
  "init_globals =
     [''annotations'', ''logging'', ''Bmr'', ''CONF_PASSWORD'', ''CONF_TIMEOUT'', ''CONF_URL'',
      ''CONF_USERNAME'', ''Platform'', ''HomeAssistant'', ''ConfigEntryAuthFailed'',
      ''ConfigEntryError'', ''ConfigEntryNotReady'', ''cv'', ''ConfigType'', ''BmrConfigEntry'',
      ''DOMAIN'', ''BmrUpdateCoordinator'', ''_PLATFORMS'', ''_LOGGER'', ''CONFIG_SCHEMA'',
      ''async_setup'', ''async_setup_entry'', ''async_reload_entry'', ''async_unload_entry'']"

text \<open>
  The two \<^verbatim>\<open>except\<close> clauses, shared word for word by \<^verbatim>\<open>_async_update_data\<close> and
  \<^verbatim>\<open>async_setup_entry\<close>.  \<open>globals\<close> are the module's names, \<open>now\<close> is what
  \<^verbatim>\<open>datetime.now()\<close> returns when it can be evaluated.  Evaluating an unbound name
  raises \<^verbatim>\<open>NameError\<close>; \<^verbatim>\<open>e.args[0]\<close> on empty \<^verbatim>\<open>args\<close> raises \<^verbatim>\<open>IndexError\<close>.
\<close>

definition on_fetch_exception :: "string list \<Rightarrow> int \<Rightarrow> exn \<Rightarrow> error" where
  "on_fetch_exception globals now e =
     (case e of
        TimeoutError \<Rightarrow> ConfigEntryNotReady
      | Exception args \<Rightarrow>
          (case args of
             [] \<Rightarrow> IndexError
           | arg0 # _ \<Rightarrow>
               if arg0 = auth_failed_message then
                 (if ''datetime'' \<notin> set globals then NameError
                  else if ''timedelta'' \<notin> set globals then NameError
                  else
                    (let dt_now = now;
                         dt_ago = dt_now - timedelta_minutes 15;
                         dt_ahead = dt_now + timedelta_minutes 15
                     in if date dt_now = date dt_ago \<and> date dt_now = date dt_ahead
                        then ConfigEntryAuthFailed
                        else ConfigEntryError))
               else ConfigEntryError))"

text \<open>\<^verbatim>\<open>BmrUpdateCoordinator._async_update_data\<close>.\<close>

definition async_update_data ::
  "int \<Rightarrow> client \<Rightarrow> controller_state option \<Rightarrow> subentry list \<Rightarrow> error + controller_state" where
  "async_update_data now bmr data subentries =
     (case fetch_state bmr data subentries of
        Inr state \<Rightarrow> Inr state
      | Inl e \<Rightarrow> Inl (on_fetch_exception coordinator_globals now e))"

text \<open>
  The connection probe of \<^verbatim>\<open>async_setup_entry\<close> (\<^verbatim>\<open>__init__.py\<close>): one call of
  \<^verbatim>\<open>getUniqueId\<close> under the same handlers.
\<close>

definition async_setup_entry_probe :: "int \<Rightarrow> client \<Rightarrow> error + unit" where
  "async_setup_entry_probe now bmr =
     (case getUniqueId bmr of
        Inr _ \<Rightarrow> Inr ()
      | Inl e \<Rightarrow> Inl (on_fetch_exception init_globals now e))"

section \<open>Entities\<close>

text \<open>
  Python list indexing \<^verbatim>\<open>xs[i]\<close>: a negative index counts from the end, an index out of
  range raises \<^verbatim>\<open>IndexError\<close>.
\<close>

definition py_index :: "'a list \<Rightarrow> int \<Rightarrow> error + 'a" where
  "py_index xs i =
     (if 0 \<le> i \<and> i < int (length xs) then Inr (xs ! nat i)
      else if - int (length xs) \<le> i \<and> i < 0 then Inr (xs ! nat (int (length xs) + i))
      else Inl IndexError)"

subsection \<open>Climate entity (climate.py)\<close>

text \<open>The host's \<^verbatim>\<open>HVACMode\<close>.\<close>

datatype hvac_mode = OFF | HEAT | COOL | HEAT_COOL | AUTO | DRY | FAN_ONLY

text \<open>The members of the host's \<^verbatim>\<open>HVACAction\<close> that the entity assigns.\<close>

datatype hvac_action = ACTION_OFF | HEATING | COOLING | IDLE

definition CLIMATE_PRESET_NONE :: string where
  "CLIMATE_PRESET_NONE = ''none''"

definition CLIMATE_PRESET_AWAY :: string where
  "CLIMATE_PRESET_AWAY = ''away''"

text \<open>
  \<^verbatim>\<open>class BmrClimateEntity\<close>: the configuration of the circuit, the values copied from
  the last snapshot, and the attributes shown to the host.  The assignment lists are
  lists in the snapshot, so the source's test \<^verbatim>\<open>_summer_mode_assignments is None\<close> never
  holds once a snapshot has been copied and has no branch here.
\<close>

record climate_entity =
  ce_circuit_id :: int
  ce_circuit_name :: string
  ce_circuit_manual_mode_schedule :: int
  ce_circuit_auto_mode_daily_schedules :: "int list"
  ce_circuit_auto_mode_daily_schedules_starting_day :: int
  ce_away_temperature :: real
  ce_enable_cooling :: bool
  ce_circuit_state :: "circuit_state option"
  ce_summer_mode :: "bool option"
  ce_summer_mode_assignments :: "bool list"
  ce_low_mode :: "low_mode_descr option"
  ce_low_mode_assignments :: "bool list"
  ce_attr_preset_mode :: "string option"
  ce_attr_hvac_mode :: "hvac_mode option"
  ce_attr_hvac_action :: "hvac_action option"
  ce_attr_current_temperature :: "real option"
  ce_attr_target_temperature :: "real option"

definition update_preset_mode :: "climate_entity \<Rightarrow> climate_entity" where
  "update_preset_mode e =
     (case ce_low_mode e of
        None \<Rightarrow> e\<lparr>ce_attr_preset_mode := None\<rparr>
      | Some lm \<Rightarrow>
          if lm_enabled lm then e\<lparr>ce_attr_preset_mode := Some CLIMATE_PRESET_AWAY\<rparr>
          else e\<lparr>ce_attr_preset_mode := Some CLIMATE_PRESET_NONE\<rparr>)"

text \<open>
  \<^verbatim>\<open>_update_hvac_mode\<close>.  \<^verbatim>\<open>schedules.get\<close> on a circuit state without schedules
  raises \<^verbatim>\<open>AttributeError\<close>.
\<close>

definition update_hvac_mode :: "climate_entity \<Rightarrow> error + climate_entity" where
  "update_hvac_mode e =
     (case ce_circuit_state e of
        None \<Rightarrow> Inr (e\<lparr>ce_attr_hvac_mode := None\<rparr>)
      | Some circuit_state \<Rightarrow>
          (case ce_summer_mode e of
             None \<Rightarrow> Inr (e\<lparr>ce_attr_hvac_mode := None\<rparr>)
           | Some _ \<Rightarrow>
               (case py_index (ce_summer_mode_assignments e) (ce_circuit_id e) of
                  Inl err \<Rightarrow> Inl err
                | Inr assigned \<Rightarrow>
                    if assigned then Inr (e\<lparr>ce_attr_hvac_mode := Some OFF\<rparr>)
                    else
                      (case cs_schedules circuit_state of
                         None \<Rightarrow> Inl AttributeError
                       | Some schedules \<Rightarrow>
                           if Some [ce_circuit_manual_mode_schedule e] = day_schedules schedules
                           then Inr (e\<lparr>ce_attr_hvac_mode :=
                                        Some (if ce_enable_cooling e then HEAT_COOL else HEAT)\<rparr>)
                           else Inr (e\<lparr>ce_attr_hvac_mode := Some AUTO\<rparr>)))))"

definition update_hvac_action :: "climate_entity \<Rightarrow> error + climate_entity" where
  "update_hvac_action e =
     (case ce_circuit_state e of
        None \<Rightarrow> Inr (e\<lparr>ce_attr_hvac_action := None\<rparr>)
      | Some circuit_state \<Rightarrow>
          (case ce_summer_mode e of
             None \<Rightarrow> Inr (e\<lparr>ce_attr_hvac_action := None\<rparr>)
           | Some _ \<Rightarrow>
               (case py_index (ce_summer_mode_assignments e) (ce_circuit_id e) of
                  Inl err \<Rightarrow> Inl err
                | Inr assigned \<Rightarrow>
                    if assigned then Inr (e\<lparr>ce_attr_hvac_action := Some ACTION_OFF\<rparr>)
                    else if cs_heating circuit_state = Some True
                      then Inr (e\<lparr>ce_attr_hvac_action := Some HEATING\<rparr>)
                    else if cs_cooling circuit_state = Some True
                      then Inr (e\<lparr>ce_attr_hvac_action := Some COOLING\<rparr>)
                    else Inr (e\<lparr>ce_attr_hvac_action := Some IDLE\<rparr>))))"

definition update_current_temperature :: "climate_entity \<Rightarrow> climate_entity" where
  "update_current_temperature e =
     (case ce_circuit_state e of
        None \<Rightarrow> e\<lparr>ce_attr_current_temperature := None\<rparr>
      | Some circuit_state \<Rightarrow> e\<lparr>ce_attr_current_temperature := cs_temperature circuit_state\<rparr>)"

definition update_target_temperature :: "climate_entity \<Rightarrow> climate_entity" where
  "update_target_temperature e =
     (case ce_circuit_state e of
        None \<Rightarrow> e\<lparr>ce_attr_target_temperature := None\<rparr>
      | Some circuit_state \<Rightarrow>
          e\<lparr>ce_attr_target_temperature := cs_target_temperature circuit_state\<rparr>)"

text \<open>
  \<^verbatim>\<open>BmrClimateEntity._handle_coordinator_update\<close>: \<^verbatim>\<open>data.circuits[circuit_id]\<close> is a
  dict subscription and raises \<^verbatim>\<open>KeyError\<close> on a missing key.  The result is the
  entity as \<^verbatim>\<open>async_write_ha_state()\<close> publishes it.
\<close>

definition climate_handle_coordinator_update ::
  "controller_state \<Rightarrow> climate_entity \<Rightarrow> error + climate_entity" where
  "climate_handle_coordinator_update data e =
     (case map_of (circuits data) (ce_circuit_id e) of
        None \<Rightarrow> Inl KeyError
      | Some circuit_state \<Rightarrow>
          (let e1 = e\<lparr> ce_circuit_state := Some circuit_state,
                        ce_summer_mode := summer_mode data,
                        ce_summer_mode_assignments := summer_mode_assignments data,
                        ce_low_mode := low_mode data,
                        ce_low_mode_assignments := low_mode_assignments data \<rparr>;
               e2 = update_preset_mode e1
           in case update_hvac_mode e2 of
                Inl err \<Rightarrow> Inl err
              | Inr e3 \<Rightarrow>
                  (case update_hvac_action e3 of
                     Inl err \<Rightarrow> Inl err
                   | Inr e4 \<Rightarrow> Inr (update_target_temperature (update_current_temperature e4)))))"

subsection \<open>Sensor entities (sensor.py)\<close>

text \<open>\<^verbatim>\<open>BmrCircuitTemperature\<close> and \<^verbatim>\<open>BmrCircuitTargetTemperature\<close>.\<close>

record sensor_entity =
  sn_circuit_id :: int
  sn_circuit_state :: "circuit_state option"
  sn_attr_native_value :: "real option"

definition temperature_handle_coordinator_update ::
  "controller_state \<Rightarrow> sensor_entity \<Rightarrow> error + sensor_entity" where
  "temperature_handle_coordinator_update data s =
     (case map_of (circuits data) (sn_circuit_id s) of
        None \<Rightarrow> Inl KeyError
      | Some circuit_state \<Rightarrow>
          Inr (s\<lparr> sn_circuit_state := Some circuit_state,
                  sn_attr_native_value := cs_temperature circuit_state \<rparr>))"

definition target_temperature_handle_coordinator_update ::
  "controller_state \<Rightarrow> sensor_entity \<Rightarrow> error + sensor_entity" where
  "target_temperature_handle_coordinator_update data s =
     (case map_of (circuits data) (sn_circuit_id s) of
        None \<Rightarrow> Inl KeyError
      | Some circuit_state \<Rightarrow>
          Inr (s\<lparr> sn_circuit_state := Some circuit_state,
                  sn_attr_native_value := cs_target_temperature circuit_state \<rparr>))"

subsection \<open>Power switch (switch.py)\<close>

record power_switch =
  ps_circuit_ids :: "int list"
  ps_attr_is_on :: "bool option"

text \<open>
  \<^verbatim>\<open>all(summer_mode_assignments[int(circuit_id)] for circuit_id in self._circuit_ids)\<close>:
  the generator is consumed up to the first false element.
\<close>

fun all_assigned :: "bool list \<Rightarrow> int list \<Rightarrow> error + bool" where
  "all_assigned assignments [] = Inr True"
| "all_assigned assignments (circuit_id # rest) =
     (case py_index assignments circuit_id of
        Inl err \<Rightarrow> Inl err
      | Inr assigned \<Rightarrow> if assigned then all_assigned assignments rest else Inr False)"

text \<open>
  \<^verbatim>\<open>BmrControllerPowerSwitch._handle_coordinator_update\<close>:
  \<^verbatim>\<open>not (summer_mode and all(...))\<close>; \<^verbatim>\<open>and\<close> evaluates its right operand only when
  \<^verbatim>\<open>summer_mode\<close> is true.
\<close>

definition power_handle_coordinator_update ::
  "controller_state \<Rightarrow> power_switch \<Rightarrow> error + power_switch" where
  "power_handle_coordinator_update data sw =
     (if summer_mode data = Some True then
        (case all_assigned (summer_mode_assignments data) (ps_circuit_ids sw) of
           Inl err \<Rightarrow> Inl err
         | Inr a \<Rightarrow> Inr (sw\<lparr>ps_attr_is_on := Some (\<not> a)\<rparr>))
      else Inr (sw\<lparr>ps_attr_is_on := Some True\<rparr>))"

section \<open>The controller behind the client\<close>

text \<open>
  The write calls of the client, with their arguments, and the refresh request that ends
  every action handler.
\<close>

datatype call =
    SetSummerModeAssignments "int list" bool
  | SetSummerMode bool
  | SetLowModeAssignments "int list" bool
  | SetLowMode bool "real option"
  | SetCircuitSchedules int "int list" "int option"
  | SetSchedule int string "(string \<times> real option) list"
  | AsyncRequestRefresh

text \<open>
  Modelled from the spec: the device client \<^verbatim>\<open>pybmr\<close> and the controller behind it are
  an external library and a physical device, not part of the repository.  The model
  follows the interface of section 6 of the specification: each getter returns what the
  matching setter stored, \<^verbatim>\<open>set_*_assignments(ids, enabled)\<close> sets the flag of every listed
  circuit the controller has and leaves the others alone, \<^verbatim>\<open>set_low_mode\<close> keeps the
  stored temperature when none is passed.  Every call is answered (a call that raises
  aborts the handler and is outside the model).  \<open>dev_trace\<close> records the calls in the
  order they were issued.
\<close>

record device =
  dev_unique_id :: "string option"
  dev_hdo :: "bool option"
  dev_circuit :: "int \<Rightarrow> circuit_data"
  dev_low_mode :: low_mode_descr
  dev_low_mode_assignments :: "bool list"
  dev_summer_mode :: bool
  dev_summer_mode_assignments :: "bool list"
  dev_circuit_schedules :: "int \<Rightarrow> int list \<times> int option"
  dev_schedules :: "int \<Rightarrow> (string \<times> (string \<times> real option) list) option"
  dev_trace :: "call list"

text \<open>Modelled from the spec: the flags of the listed circuits are set to \<open>v\<close>.\<close>

definition assign :: "int list \<Rightarrow> bool \<Rightarrow> bool list \<Rightarrow> bool list" where
  "assign ids v flags =
     fold (\<lambda>i fs. if 0 \<le> i \<and> i < int (length fs) then fs[nat i := v] else fs) ids flags"

text \<open>Modelled from the spec: \<^verbatim>\<open>set_summer_mode_assignments(ids, enabled)\<close>.\<close>

definition setSummerModeAssignments :: "int list \<Rightarrow> bool \<Rightarrow> device \<Rightarrow> device" where
  "setSummerModeAssignments ids v dev =
     dev\<lparr> dev_summer_mode_assignments := assign ids v (dev_summer_mode_assignments dev),
          dev_trace := dev_trace dev @ [SetSummerModeAssignments ids v] \<rparr>"

text \<open>Modelled from the spec: \<^verbatim>\<open>set_summer_mode(enabled)\<close>.\<close>

definition setSummerMode :: "bool \<Rightarrow> device \<Rightarrow> device" where
  "setSummerMode v dev =
     dev\<lparr> dev_summer_mode := v, dev_trace := dev_trace dev @ [SetSummerMode v] \<rparr>"



text \<open>
  Modelled from the spec: \<^verbatim>\<open>set_circuit_schedules(id, schedule_ids, starting_day?)\<close>; the
  starting day is stored as passed (\<open>None\<close>: the client's default).
\<close>

definition setCircuitSchedules :: "int \<Rightarrow> int list \<Rightarrow> int option \<Rightarrow> device \<Rightarrow> device" where
  "setCircuitSchedules circuit_id schedule_ids starting_day dev =
     dev\<lparr> dev_circuit_schedules :=
            (dev_circuit_schedules dev)(circuit_id := (schedule_ids, starting_day)),
          dev_trace := dev_trace dev @ [SetCircuitSchedules circuit_id schedule_ids starting_day] \<rparr>"


text \<open>
  \<^verbatim>\<open>coordinator.async_request_refresh()\<close>: the request is recorded; the poll it triggers
  is \<open>async_update_data\<close> on the controller's answers.
\<close>

definition async_request_refresh :: "device \<Rightarrow> device" where
  "async_request_refresh dev = dev\<lparr> dev_trace := dev_trace dev @ [AsyncRequestRefresh] \<rparr>"

text \<open>Modelled from the spec: the answers of the controller to the read calls of a poll.\<close>

definition client_of :: "device \<Rightarrow> client" where
  "client_of dev =
     \<lparr> getUniqueId = Inr (dev_unique_id dev),
       getHDO = Inr (dev_hdo dev),
       getLowMode = Inr (Some (dev_low_mode dev)),
       getLowModeAssignments = Inr (dev_low_mode_assignments dev),
       getSummerMode = Inr (Some (dev_summer_mode dev)),
       getSummerModeAssignments = Inr (dev_summer_mode_assignments dev),
       getCircuit = (\<lambda>i. Inr (dev_circuit dev i)),
       getCircuitSchedules =
         (\<lambda>i. Inr \<lparr> day_schedules = Some (fst (dev_circuit_schedules dev i)) \<rparr>) \<rparr>"

section \<open>Action handlers\<close>

text \<open>
  \<^verbatim>\<open>BmrClimateEntity.async_set_hvac_mode\<close>.  \<^verbatim>\<open>any(xs)\<close> on a list of booleans is
  \<open>True \<in> set xs\<close>.
\<close>

definition async_set_hvac_mode :: "climate_entity \<Rightarrow> hvac_mode \<Rightarrow> device \<Rightarrow> device" where
  "async_set_hvac_mode e mode dev =
     (let d1 =
            (if mode = OFF then
               (let d = setSummerModeAssignments [ce_circuit_id e] True dev
                in if \<not> dev_summer_mode d then setSummerMode True d else d)
             else
               (let d = setSummerModeAssignments [ce_circuit_id e] False dev
                in if \<not> (True \<in> set (dev_summer_mode_assignments d))
                   then setSummerMode False d else d));
          d2 =
            (if mode = HEAT \<or> mode = HEAT_COOL then
               setCircuitSchedules (ce_circuit_id e) [ce_circuit_manual_mode_schedule e] None d1
             else
               setCircuitSchedules (ce_circuit_id e)
                 (ce_circuit_auto_mode_daily_schedules e)
                 (Some (ce_circuit_auto_mode_daily_schedules_starting_day e)) d1)
      in async_request_refresh d2)"





section \<open>Observations on the controller\<close>

text \<open>The schedule assignments among the calls issued.\<close>

fun is_schedule_write :: "call \<Rightarrow> bool" where
  "is_schedule_write (SetCircuitSchedules circuit_id schedule_ids starting_day) = True"
| "is_schedule_write other = False"

definition schedule_writes :: "call list \<Rightarrow> call list" where
  "schedule_writes calls = filter is_schedule_write calls"


section \<open>Concrete inputs\<close>

text \<open>A reading of circuit \<open>i\<close> with measured temperature \<open>t\<close>, and the state built from it.\<close>

definition example_reading :: "int \<Rightarrow> real option \<Rightarrow> circuit_data" where
  "example_reading i t =
     \<lparr> cd_id = i, cd_name = ''R'', cd_enabled = Some True, cd_user_offset = Some 0,
       cd_max_offset = Some 5, cd_warning = Some False, cd_heating = Some True,
       cd_cooling = Some False, cd_low_mode = Some False, cd_summer_mode = Some False,
       cd_temperature = t, cd_target_temperature = Some 21 \<rparr>"

definition example_state :: "int \<Rightarrow> real option \<Rightarrow> int list \<Rightarrow> circuit_state" where
  "example_state i t ds =
     make_circuit_state (example_reading i t) ''Room'' \<lparr> day_schedules = Some ds \<rparr>"

text \<open>A snapshot with the given circuits, summer-mode flag and assignments, low mode and assignments.\<close>

definition example_snapshot ::
  "(int \<times> circuit_state) list \<Rightarrow> bool option \<Rightarrow> bool list \<Rightarrow> low_mode_descr option \<Rightarrow> bool list
    \<Rightarrow> controller_state" where
  "example_snapshot cs sm sma lm lma =
     \<lparr> circuits = cs, hdo = Some False, unique_id = Some ''hc64'', low_mode = lm,
       low_mode_assignments = lma, summer_mode = sm, summer_mode_assignments = sma \<rparr>"

text \<open>
  A controller whose circuit \<open>i\<close> measures \<open>t i\<close>, with the given low-mode flag and
  low-mode assignments; summer mode is off, no circuit is assigned to it and no write
  has been issued.
\<close>

definition example_device :: "(int \<Rightarrow> real option) \<Rightarrow> bool \<Rightarrow> bool list \<Rightarrow> device" where
  "example_device t lme lma =
     \<lparr> dev_unique_id = Some ''hc64'', dev_hdo = Some False,
       dev_circuit = (\<lambda>i. example_reading i (t i)),
       dev_low_mode = \<lparr> lm_enabled = lme, lm_temperature = Some 18 \<rparr>,
       dev_low_mode_assignments = lma,
       dev_summer_mode = False,
       dev_summer_mode_assignments = replicate (length lma) False,
       dev_circuit_schedules = (\<lambda>i. ([1, 2], Some 1)),
       dev_schedules = (\<lambda>i. None),
       dev_trace = [] \<rparr>"

text \<open>
  A climate entity for circuit 1 with override schedule 9 and the rotation \<open>[1, 2]\<close>
  starting at day 1, showing the HVAC mode \<open>m\<close>.
\<close>

definition example_climate :: "bool \<Rightarrow> hvac_mode option \<Rightarrow> climate_entity" where
  "example_climate cooling m =
     \<lparr> ce_circuit_id = 1, ce_circuit_name = ''Room'', ce_circuit_manual_mode_schedule = 9,
       ce_circuit_auto_mode_daily_schedules = [1, 2],
       ce_circuit_auto_mode_daily_schedules_starting_day = 1,
       ce_away_temperature = 18, ce_enable_cooling = cooling,
       ce_circuit_state = None, ce_summer_mode = None, ce_summer_mode_assignments = [],
       ce_low_mode = None, ce_low_mode_assignments = [],
       ce_attr_preset_mode = None, ce_attr_hvac_mode = m, ce_attr_hvac_action = None,
       ce_attr_current_temperature = None, ce_attr_target_temperature = None \<rparr>"

definition example_sensor :: sensor_entity where
  "example_sensor = \<lparr> sn_circuit_id = 1, sn_circuit_state = None, sn_attr_native_value = None \<rparr>"

text \<open>Circuits 0 and 1 as configured sub-entries.\<close>

definition example_subentries :: "subentry list" where
  "example_subentries =
     [\<lparr> se_circuit_id = 0, se_circuit_name = ''Hall'' \<rparr>,
      \<lparr> se_circuit_id = 1, se_circuit_name = ''Room'' \<rparr>]"

text \<open>A client whose first call fails with the authentication message.\<close>

definition auth_failing_client :: client where
  "auth_failing_client =
     (client_of (example_device (\<lambda>i. Some 21) False [False, False]))
       \<lparr> getUniqueId := Inl (Exception [auth_failed_message]) \<rparr>"

text \<open>Noon and 23:52 of day 0, in microseconds.\<close>

definition noon :: int where
  "noon = 12 * 3600 * 1000000"

definition eight_to_midnight :: int where
  "eight_to_midnight = (23 * 3600 + 52 * 60) * 1000000"

text \<open>
  A previous snapshot with circuit 0 at 20 degrees and circuit 1 at 21 degrees, a
  controller whose circuit 1 now measures 27 degrees, and the snapshot the next poll
  builds from it.
\<close>

definition example_previous :: controller_state where
  "example_previous =
     example_snapshot
       [(0, example_state 0 (Some 20) [1, 2]), (1, example_state 1 (Some 21) [1, 2])]
       (Some False) [False, False] (Some \<lparr> lm_enabled = False, lm_temperature = Some 18 \<rparr>)
       [False, False]"

definition jump_device :: device where
  "jump_device = example_device (\<lambda>i. if i = 1 then Some 27 else Some 20) False [False, False]"

definition jump_snapshot :: controller_state where
  "jump_snapshot =
     example_snapshot
       [(0, make_circuit_state (example_reading 0 (Some 20)) ''Hall'' \<lparr> day_schedules = Some [1, 2] \<rparr>)]
       (Some False) [False, False] (Some \<lparr> lm_enabled = False, lm_temperature = Some 18 \<rparr>)
       [False, False]"

text \<open>
  A snapshot in which circuit 1 is assigned the single schedule 9, global low mode is
  enabled and no circuit is assigned to low mode or summer mode.
\<close>

definition override_snapshot :: controller_state where
  "override_snapshot =
     example_snapshot
       [(0, example_state 0 (Some 20) [1, 2]), (1, example_state 1 (Some 21) [9])]
       (Some False) [False, False] (Some \<lparr> lm_enabled = True, lm_temperature = Some 18 \<rparr>)
       [False, False]"


text \<open>Summer mode active, circuit 0 assigned to it and circuit 1 not.\<close>

definition summer_snapshot :: controller_state where
  "summer_snapshot = example_snapshot [] (Some True) [True, False] None []"

text \<open>Summer mode active and both circuits assigned to it.\<close>

definition all_summer_snapshot :: controller_state where
  "all_summer_snapshot = example_snapshot [] (Some True) [True, True] None []"


definition example_power_switch :: power_switch where
  "example_power_switch = \<lparr> ps_circuit_ids = [0, 1], ps_attr_is_on = None \<rparr>"

section \<open>Properties\<close>

subsection \<open>Sanity check\<close>


text \<open>
  With matching identifiers and both temperatures defined the check looks at the signed
  difference only: a reading is rejected exactly when it is 5 degrees or more above the
  previous one.
\<close>

lemma sanity_check_signed_difference:
  "cd_id r = cs_id p \<Longrightarrow> cd_temperature r = Some t \<Longrightarrow> cs_temperature p = Some pt \<Longrightarrow>
   sanity_check_circuit_state r (Some p) = (\<not> (t - pt \<ge> 5))"
  by (simp add: sanity_check_circuit_state_def MAX_TEMPERATURE_DELTA_def)

text \<open>The two parts of the claimed behaviour that the code has.\<close>

lemma sanity_check_rejects_rise:
  "cd_id r = cs_id p \<Longrightarrow> cd_temperature r = Some t \<Longrightarrow> cs_temperature p = Some pt \<Longrightarrow>
   t - pt \<ge> 5 \<Longrightarrow> sanity_check_circuit_state r (Some p) = False"
  by (simp add: sanity_check_signed_difference)

lemma sanity_check_accepts_small_difference:
  "cd_id r = cs_id p \<Longrightarrow> cd_temperature r = Some t \<Longrightarrow> cs_temperature p = Some pt \<Longrightarrow>
   \<bar>t - pt\<bar> < 5 \<Longrightarrow> sanity_check_circuit_state r (Some p) = True"
  by (simp add: sanity_check_signed_difference)

text \<open>
  C1: the claim asks for a rejection whenever the absolute difference between the new and
  the previous temperature is at least 5 degrees, symmetric in the sign of the change.
  On the code a reading of 15 degrees after a previous 21 degrees (a drop of 6 degrees,
  same circuit id) is accepted.
\<close>

theorem sanity_check_accepts_temperature_drop:
  "sanity_check_circuit_state (example_reading 1 (Some 15))
     (Some (example_state 1 (Some 21) [1, 2])) = True"
  by (simp add: sanity_check_circuit_state_def MAX_TEMPERATURE_DELTA_def example_reading_def
      example_state_def make_circuit_state_def)

subsection \<open>Failures of a fetch\<close>

lemma same_day_back:
  assumes d: "(d::int) > 0" and k: "0 \<le> k" "k < d"
  shows "(n div d = (n - k) div d) = (k \<le> n mod d)"
proof -
  define q where "q = n div d"
  define r where "r = n mod d"
  have n: "n = q * d + r" by (simp add: q_def r_def)
  have r: "0 \<le> r" "r < d" using d by (simp_all add: r_def)
  show ?thesis
  proof (cases "k \<le> r")
    case True
    then have "(n - k) div d = q"
      using n r k d by (intro int_div_pos_eq[where r="r - k"]) auto
    then show ?thesis using True by (simp add: q_def r_def)
  next
    case False
    then have "(n - k) div d = q - 1"
      using n r k d by (intro int_div_pos_eq[where r="r - k + d"]) (auto simp: algebra_simps)
    then show ?thesis using False by (simp add: q_def r_def)
  qed
qed

lemma same_day_ahead:
  assumes d: "(d::int) > 0" and k: "0 \<le> k" "k < d"
  shows "(n div d = (n + k) div d) = (n mod d < d - k)"
proof -
  define q where "q = n div d"
  define r where "r = n mod d"
  have n: "n = q * d + r" by (simp add: q_def r_def)
  have r: "0 \<le> r" "r < d" using d by (simp_all add: r_def)
  show ?thesis
  proof (cases "r < d - k")
    case True
    then have "(n + k) div d = q"
      using n r k d by (intro int_div_pos_eq[where r="r + k"]) auto
    then show ?thesis using True by (simp add: q_def r_def)
  next
    case False
    then have "(n + k) div d = q + 1"
      using n r k d by (intro int_div_pos_eq[where r="r + k - d"]) (auto simp: algebra_simps)
    then show ?thesis using False by (simp add: q_def r_def)
  qed
qed

text \<open>
  In a module that binds both \<^verbatim>\<open>datetime\<close> and \<^verbatim>\<open>timedelta\<close> the handler raises the
  auth-failed error when the time of day is at least 00:15 and before 23:45, and the
  generic configuration error inside the window around midnight.
\<close>

lemma on_fetch_exception_with_datetime:
  "''datetime'' \<in> set g \<Longrightarrow> ''timedelta'' \<in> set g \<Longrightarrow>
   on_fetch_exception g now (Exception [auth_failed_message]) =
     (if 900000000 \<le> now mod 86400000000 \<and> now mod 86400000000 < 86400000000 - 900000000
      then ConfigEntryAuthFailed else ConfigEntryError)"
  using same_day_back[of 86400000000 900000000 now] same_day_ahead[of 86400000000 900000000 now]
  by (simp add: on_fetch_exception_def date_def timedelta_minutes_def Let_def)

text \<open>Neither module binds \<^verbatim>\<open>datetime\<close>, so neither handler ever raises the auth-failed error.\<close>

lemma coordinator_never_auth_failed:
  "on_fetch_exception coordinator_globals now e \<noteq> ConfigEntryAuthFailed"
  by (simp add: on_fetch_exception_def coordinator_globals_def split: exn.splits list.splits)

lemma init_never_auth_failed:
  "on_fetch_exception init_globals now e \<noteq> ConfigEntryAuthFailed"
  by (simp add: on_fetch_exception_def init_globals_def split: exn.splits list.splits)

text \<open>
  C2: the claim asks for the auth-failed error when a fetch fails with the authentication
  message more than 15 minutes away from midnight, and for a silent retry inside the
  window.  On the code the poll at 12:00 ends in \<^verbatim>\<open>NameError\<close>, as does the poll at 23:52
  and the connection probe of the setup routine.
\<close>

theorem auth_failure_raises_NameError:
  "async_update_data noon auth_failing_client None example_subentries = Inl NameError
   \<and> async_update_data eight_to_midnight auth_failing_client None example_subentries = Inl NameError
   \<and> async_setup_entry_probe noon auth_failing_client = Inl NameError"
  by (simp add: async_update_data_def async_setup_entry_probe_def fetch_state_def
      auth_failing_client_def on_fetch_exception_def coordinator_globals_def init_globals_def)

subsection \<open>The poll\<close>

lemma fetch_circuits_step:
  assumes "fetch_circuits bmr data (x # rest) acc = Inr cs"
  obtains r sch where
    "getCircuit bmr (se_circuit_id x) = Inr r"
    "getCircuitSchedules bmr (se_circuit_id x) = Inr sch"
    "fetch_circuits bmr data rest
       (if sanity_check_circuit_state r (previous_circuit_state data (se_circuit_id x))
        then AList.update (se_circuit_id x) (make_circuit_state r (se_circuit_name x) sch) acc
        else acc) = Inr cs"
  using assms by (simp split: sum.splits if_splits)

lemma fetch_circuits_absent:
  "fetch_circuits bmr data subs acc = Inr cs \<Longrightarrow> k \<notin> se_circuit_id ` set subs \<Longrightarrow>
   map_of cs k = map_of acc k"
proof (induction subs arbitrary: acc)
  case Nil
  then show ?case by simp
next
  case (Cons x rest)
  from Cons.prems(1) obtain r sch where
    rest: "fetch_circuits bmr data rest
       (if sanity_check_circuit_state r (previous_circuit_state data (se_circuit_id x))
        then AList.update (se_circuit_id x) (make_circuit_state r (se_circuit_name x) sch) acc
        else acc) = Inr cs"
    by (rule fetch_circuits_step)
  from Cons.prems(2) have k: "k \<noteq> se_circuit_id x" "k \<notin> se_circuit_id ` set rest" by auto
  from Cons.IH[OF rest k(2)] k(1) show ?case
    by (simp add: update_conv' split: if_splits)
qed


lemma fetch_circuits_configured:
  "fetch_circuits bmr data subs acc = Inr cs \<Longrightarrow> sub \<in> set subs \<Longrightarrow>
   \<exists>r sch. getCircuit bmr (se_circuit_id sub) = Inr r
     \<and> getCircuitSchedules bmr (se_circuit_id sub) = Inr sch
     \<and> (if sanity_check_circuit_state r (previous_circuit_state data (se_circuit_id sub))
        then \<exists>name. map_of cs (se_circuit_id sub) = Some (make_circuit_state r name sch)
        else map_of cs (se_circuit_id sub) = map_of acc (se_circuit_id sub))"
proof (induction subs arbitrary: acc sub)
  case Nil
  then show ?case by simp
next
  case (Cons x rest)
  from Cons.prems(1) obtain r sch where
    r: "getCircuit bmr (se_circuit_id x) = Inr r" and
    sch: "getCircuitSchedules bmr (se_circuit_id x) = Inr sch" and
    rest: "fetch_circuits bmr data rest
       (if sanity_check_circuit_state r (previous_circuit_state data (se_circuit_id x))
        then AList.update (se_circuit_id x) (make_circuit_state r (se_circuit_name x) sch) acc
        else acc) = Inr cs"
    by (rule fetch_circuits_step)
  define acc' where "acc' =
    (if sanity_check_circuit_state r (previous_circuit_state data (se_circuit_id x))
     then AList.update (se_circuit_id x) (make_circuit_state r (se_circuit_name x) sch) acc
     else acc)"
  have rest': "fetch_circuits bmr data rest acc' = Inr cs"
    using rest by (simp add: acc'_def)
  have same: "map_of acc' (se_circuit_id x) =
    (if sanity_check_circuit_state r (previous_circuit_state data (se_circuit_id x))
     then Some (make_circuit_state r (se_circuit_name x) sch) else map_of acc (se_circuit_id x))"
    by (simp add: acc'_def update_conv')
  have other: "k \<noteq> se_circuit_id x \<Longrightarrow> map_of acc' k = map_of acc k" for k
    by (simp add: acc'_def update_conv')
  show ?case
  proof (cases "se_circuit_id sub = se_circuit_id x")
    case True
    show ?thesis
    proof (cases "se_circuit_id x \<in> se_circuit_id ` set rest")
      case True
      then obtain y where y: "y \<in> set rest" "se_circuit_id y = se_circuit_id x" by auto
      from Cons.IH[OF rest' y(1)] obtain r' sch' where
        a: "getCircuit bmr (se_circuit_id y) = Inr r'"
           "getCircuitSchedules bmr (se_circuit_id y) = Inr sch'" and
        b: "if sanity_check_circuit_state r' (previous_circuit_state data (se_circuit_id y))
            then \<exists>name. map_of cs (se_circuit_id y) = Some (make_circuit_state r' name sch')
            else map_of cs (se_circuit_id y) = map_of acc' (se_circuit_id y)"
        by blast
      from a r sch y(2) have eq: "r' = r" "sch' = sch" by simp_all
      show ?thesis
      proof (cases "sanity_check_circuit_state r (previous_circuit_state data (se_circuit_id x))")
        case True
        with b eq y(2) r sch \<open>se_circuit_id sub = se_circuit_id x\<close> show ?thesis by simp
      next
        case False
        with b eq y(2) r sch same \<open>se_circuit_id sub = se_circuit_id x\<close> show ?thesis by simp
      qed
    next
      case False
      from fetch_circuits_absent[OF rest' False] same r sch \<open>se_circuit_id sub = se_circuit_id x\<close>
      show ?thesis by auto
    qed
  next
    case False
    with Cons.prems(2) have "sub \<in> set rest" by auto
    from Cons.IH[OF rest' this] show ?thesis
      unfolding other[OF False] .
  qed
qed

lemma async_update_data_Inr:
  "async_update_data now bmr data subs = Inr state \<Longrightarrow>
   fetch_circuits bmr data subs [] = Inr (circuits state)
   \<and> getUniqueId bmr = Inr (unique_id state) \<and> getHDO bmr = Inr (hdo state)
   \<and> getLowMode bmr = Inr (low_mode state)
   \<and> getLowModeAssignments bmr = Inr (low_mode_assignments state)
   \<and> getSummerMode bmr = Inr (summer_mode state)
   \<and> getSummerModeAssignments bmr = Inr (summer_mode_assignments state)"
  by (auto simp: async_update_data_def fetch_state_def split: sum.splits)




text \<open>The poll of \<open>jump_device\<close> after \<open>example_previous\<close> drops circuit 1 and keeps circuit 0.\<close>

lemma jump_poll:
  "async_update_data noon (client_of jump_device) (Some example_previous) example_subentries
     = Inr jump_snapshot"
  by (simp add: async_update_data_def fetch_state_def client_of_def jump_device_def
      example_device_def example_subentries_def example_previous_def jump_snapshot_def
      example_snapshot_def sanity_check_circuit_state_def previous_circuit_state_def
      MAX_TEMPERATURE_DELTA_def example_state_def example_reading_def make_circuit_state_def)

text \<open>
  What a returned poll says of a configured circuit: it was read, and it is in the
  snapshot, with the state built from its reading and schedules, exactly when its own
  sanity check passes.
\<close>

lemma poll_circuit:
  assumes "async_update_data now bmr data subentries = Inr state"
    and "sub \<in> set subentries"
  shows "\<exists>r sch. getCircuit bmr (se_circuit_id sub) = Inr r
     \<and> getCircuitSchedules bmr (se_circuit_id sub) = Inr sch
     \<and> (if sanity_check_circuit_state r (previous_circuit_state data (se_circuit_id sub))
        then \<exists>name. map_of (circuits state) (se_circuit_id sub)
                      = Some (make_circuit_state r name sch)
        else map_of (circuits state) (se_circuit_id sub) = None)"
proof -
  from assms(1) have "fetch_circuits bmr data subentries [] = Inr (circuits state)"
    by (simp add: async_update_data_Inr)
  from fetch_circuits_configured[OF this assms(2)] show ?thesis
    unfolding map_of.simps(1) .
qed

text \<open>
  C6: in every poll that returns a snapshot, each configured circuit was read, and it is
  in the snapshot's circuit mapping (with the state built from its own reading and
  schedules) if and only if its own sanity check against the previous snapshot passes;
  a circuit that fails the check is absent, whatever the other circuits do.
\<close>

theorem poll_includes_iff_sanity_check:
  assumes "async_update_data now bmr data subentries = Inr state"
    and "sub \<in> set subentries"
  shows "\<exists>r sch. getCircuit bmr (se_circuit_id sub) = Inr r
     \<and> getCircuitSchedules bmr (se_circuit_id sub) = Inr sch
     \<and> (if sanity_check_circuit_state r (previous_circuit_state data (se_circuit_id sub))
        then \<exists>name. map_of (circuits state) (se_circuit_id sub)
                      = Some (make_circuit_state r name sch)
        else map_of (circuits state) (se_circuit_id sub) = None)"
  using assms by (rule poll_circuit)

theorem poll_includes_iff_sanity_check_witness:
  "async_update_data noon (client_of jump_device) (Some example_previous) example_subentries
     = Inr jump_snapshot
   \<and> \<not> sanity_check_circuit_state (example_reading 1 (Some 27))
         (previous_circuit_state (Some example_previous) 1)
   \<and> map_of (circuits jump_snapshot) 1 = None
   \<and> sanity_check_circuit_state (example_reading 0 (Some 20))
         (previous_circuit_state (Some example_previous) 0)
   \<and> map_of (circuits jump_snapshot) 0 \<noteq> None"
proof -
  have s1: "\<lparr> se_circuit_id = 1, se_circuit_name = ''Room'' \<rparr> \<in> set example_subentries"
    and s0: "\<lparr> se_circuit_id = 0, se_circuit_name = ''Hall'' \<rparr> \<in> set example_subentries"
    by (simp_all add: example_subentries_def)
  have r: "getCircuit (client_of jump_device) 1 = Inr (example_reading 1 (Some 27))"
    "getCircuit (client_of jump_device) 0 = Inr (example_reading 0 (Some 20))"
    by (simp_all add: client_of_def jump_device_def example_device_def)
  have c1: "\<not> sanity_check_circuit_state (example_reading 1 (Some 27))
         (previous_circuit_state (Some example_previous) 1)"
    and c0: "sanity_check_circuit_state (example_reading 0 (Some 20))
         (previous_circuit_state (Some example_previous) 0)"
    by (simp_all add: sanity_check_circuit_state_def previous_circuit_state_def
        example_previous_def example_snapshot_def example_state_def example_reading_def
        make_circuit_state_def MAX_TEMPERATURE_DELTA_def)
  from poll_includes_iff_sanity_check[OF jump_poll s1] r(1) c1
  have "map_of (circuits jump_snapshot) 1 = None" by auto
  moreover from poll_includes_iff_sanity_check[OF jump_poll s0] r(2) c0
  have "map_of (circuits jump_snapshot) 0 \<noteq> None" by auto
  ultimately show ?thesis using jump_poll c1 c0 by simp
qed

subsection \<open>Update handlers of the entities\<close>

lemma handlers_absent_circuit:
  "map_of (circuits data) (ce_circuit_id e) = None \<Longrightarrow>
     climate_handle_coordinator_update data e = Inl KeyError"
  "map_of (circuits data) (sn_circuit_id s) = None \<Longrightarrow>
     temperature_handle_coordinator_update data s = Inl KeyError"
  "map_of (circuits data) (sn_circuit_id s) = None \<Longrightarrow>
     target_temperature_handle_coordinator_update data s = Inl KeyError"
  by (simp_all add: climate_handle_coordinator_update_def temperature_handle_coordinator_update_def
      target_temperature_handle_coordinator_update_def)

text \<open>
  C3: the claim asks that the update handlers of a circuit's climate and sensor entities
  complete without raising when the circuit is absent from the snapshot.  On the code the
  poll of \<open>jump_device\<close> drops circuit 1 (its reading jumped by 6 degrees), and on the
  resulting snapshot the three handlers of circuit 1 raise \<^verbatim>\<open>KeyError\<close>.
\<close>

theorem dropped_circuit_handlers_raise_KeyError:
  "async_update_data noon (client_of jump_device) (Some example_previous) example_subentries
     = Inr jump_snapshot
   \<and> climate_handle_coordinator_update jump_snapshot (example_climate False (Some AUTO))
       = Inl KeyError
   \<and> temperature_handle_coordinator_update jump_snapshot example_sensor = Inl KeyError
   \<and> target_temperature_handle_coordinator_update jump_snapshot example_sensor = Inl KeyError"
proof -
  have "map_of (circuits jump_snapshot) 1 = None"
    by (simp add: jump_snapshot_def example_snapshot_def)
  then show ?thesis
    using jump_poll
    by (simp add: handlers_absent_circuit example_climate_def example_sensor_def)
qed

lemma update_hvac_mode_preset:
  "update_hvac_mode e = Inr e' \<Longrightarrow> ce_attr_preset_mode e' = ce_attr_preset_mode e"
  by (auto simp: update_hvac_mode_def split: option.splits sum.splits if_splits)

lemma update_hvac_action_preset:
  "update_hvac_action e = Inr e' \<Longrightarrow> ce_attr_preset_mode e' = ce_attr_preset_mode e"
  by (auto simp: update_hvac_action_def split: option.splits sum.splits if_splits)

lemma update_hvac_action_mode:
  "update_hvac_action e = Inr e' \<Longrightarrow> ce_attr_hvac_mode e' = ce_attr_hvac_mode e"
  by (auto simp: update_hvac_action_def split: option.splits sum.splits if_splits)

lemma update_temperatures_keep:
  "ce_attr_preset_mode (update_target_temperature (update_current_temperature e))
     = ce_attr_preset_mode e"
  "ce_attr_hvac_mode (update_target_temperature (update_current_temperature e))
     = ce_attr_hvac_mode e"
  by (simp_all add: update_target_temperature_def update_current_temperature_def
      split: option.splits)

text \<open>
  The handler on a snapshot that contains the circuit, has a defined summer-mode flag,
  an assignment list that covers the circuit's index and schedules for the circuit: it
  returns, and the HVAC mode it leaves is decided by the assignment flag first and the
  schedule assignment second.
\<close>

lemma climate_update_hvac_mode:
  assumes cs: "map_of (circuits data) (ce_circuit_id e) = Some cs"
    and sm: "summer_mode data = Some sm"
    and rng: "0 \<le> ce_circuit_id e" "ce_circuit_id e < int (length (summer_mode_assignments data))"
    and sch: "cs_schedules cs = Some sch"
  shows "\<exists>e'. climate_handle_coordinator_update data e = Inr e' \<and>
     ce_attr_hvac_mode e' = Some
       (if summer_mode_assignments data ! nat (ce_circuit_id e) then OFF
        else if day_schedules sch = Some [ce_circuit_manual_mode_schedule e]
          then (if ce_enable_cooling e then HEAT_COOL else HEAT)
        else AUTO)"
proof -
  define e2 where "e2 = update_preset_mode (e\<lparr> ce_circuit_state := Some cs,
                        ce_summer_mode := summer_mode data,
                        ce_summer_mode_assignments := summer_mode_assignments data,
                        ce_low_mode := low_mode data,
                        ce_low_mode_assignments := low_mode_assignments data \<rparr>)"
  have f: "ce_circuit_state e2 = Some cs" "ce_summer_mode e2 = Some sm"
    "ce_summer_mode_assignments e2 = summer_mode_assignments data"
    "ce_circuit_id e2 = ce_circuit_id e" "ce_enable_cooling e2 = ce_enable_cooling e"
    "ce_circuit_manual_mode_schedule e2 = ce_circuit_manual_mode_schedule e"
    by (simp_all add: e2_def update_preset_mode_def sm split: option.splits)
  have ix: "py_index (summer_mode_assignments data) (ce_circuit_id e)
      = Inr (summer_mode_assignments data ! nat (ce_circuit_id e))"
    using rng by (simp add: py_index_def)
  define m where "m = (if summer_mode_assignments data ! nat (ce_circuit_id e) then OFF
        else if day_schedules sch = Some [ce_circuit_manual_mode_schedule e]
          then (if ce_enable_cooling e then HEAT_COOL else HEAT)
        else AUTO)"
  have e3: "update_hvac_mode e2 = Inr (e2\<lparr>ce_attr_hvac_mode := Some m\<rparr>)"
    by (auto simp add: update_hvac_mode_def f ix sch m_def)
  define e3 where "e3 = e2\<lparr>ce_attr_hvac_mode := Some m\<rparr>"
  have f3: "ce_circuit_state e3 = Some cs" "ce_summer_mode e3 = Some sm"
    "ce_summer_mode_assignments e3 = summer_mode_assignments data"
    "ce_circuit_id e3 = ce_circuit_id e"
    by (simp_all add: e3_def f)
  have "\<exists>e4. update_hvac_action e3 = Inr e4"
    by (simp add: update_hvac_action_def f3 ix)
  then obtain e4 where e4: "update_hvac_action e3 = Inr e4" ..
  have "climate_handle_coordinator_update data e
      = Inr (update_target_temperature (update_current_temperature e4))"
    using e3 e4
    by (simp add: climate_handle_coordinator_update_def cs Let_def e2_def[symmetric]
        e3_def[symmetric])
  moreover have "ce_attr_hvac_mode (update_target_temperature (update_current_temperature e4))
      = Some m"
    using update_hvac_action_mode[OF e4] by (simp add: update_temperatures_keep e3_def)
  ultimately show ?thesis unfolding m_def by blast
qed


lemma override_snapshot_facts:
  "map_of (circuits override_snapshot) (ce_circuit_id (example_climate c m))
     = Some (example_state 1 (Some 21) [9])"
  "summer_mode override_snapshot = Some False"
  "0 \<le> ce_circuit_id (example_climate c m)"
  "ce_circuit_id (example_climate c m) < int (length (summer_mode_assignments override_snapshot))"
  "cs_schedules (example_state 1 (Some 21) [9]) = Some \<lparr> day_schedules = Some [9] \<rparr>"
  by (simp_all add: override_snapshot_def example_snapshot_def example_climate_def
      example_state_def make_circuit_state_def)




text \<open>
  C10: whenever the update handler returns, the preset it leaves is derived from the
  controller-wide low-mode descriptor of the snapshot alone: undefined when the
  descriptor is missing, \<open>away\<close> when its enabled flag is true, \<open>none\<close> when it is false.
  Neither the per-circuit low-mode assignments nor the circuit's own low-mode flag enter,
  so with global low mode enabled a circuit that is not assigned to low mode reports
  \<open>away\<close> as well.
\<close>

theorem preset_from_low_mode_flag:
  assumes "climate_handle_coordinator_update data e = Inr e'"
  shows "ce_attr_preset_mode e' =
     (case low_mode data of
        None \<Rightarrow> None
      | Some lm \<Rightarrow> if lm_enabled lm then Some CLIMATE_PRESET_AWAY else Some CLIMATE_PRESET_NONE)"
proof -
  from assms obtain cs where cs: "map_of (circuits data) (ce_circuit_id e) = Some cs"
    by (auto simp: climate_handle_coordinator_update_def split: option.splits)
  define e2 where "e2 = update_preset_mode (e\<lparr> ce_circuit_state := Some cs,
                        ce_summer_mode := summer_mode data,
                        ce_summer_mode_assignments := summer_mode_assignments data,
                        ce_low_mode := low_mode data,
                        ce_low_mode_assignments := low_mode_assignments data \<rparr>)"
  from assms cs obtain e3 e4 where
    e3: "update_hvac_mode e2 = Inr e3" and e4: "update_hvac_action e3 = Inr e4" and
    e': "e' = update_target_temperature (update_current_temperature e4)"
    by (auto simp: climate_handle_coordinator_update_def e2_def Let_def split: sum.splits)
  have "ce_attr_preset_mode e' = ce_attr_preset_mode e2"
    using update_hvac_mode_preset[OF e3] update_hvac_action_preset[OF e4]
    by (simp add: e' update_temperatures_keep)
  also have "\<dots> = (case low_mode data of
        None \<Rightarrow> None
      | Some lm \<Rightarrow> if lm_enabled lm then Some CLIMATE_PRESET_AWAY else Some CLIMATE_PRESET_NONE)"
    by (simp add: e2_def update_preset_mode_def split: option.splits)
  finally show ?thesis .
qed

theorem preset_from_low_mode_flag_witness:
  "\<exists>e'. climate_handle_coordinator_update override_snapshot (example_climate False None) = Inr e'
     \<and> ce_attr_preset_mode e' = Some ''away''
     \<and> low_mode_assignments override_snapshot ! 1 = False
     \<and> cs_low_mode (example_state 1 (Some 21) [9]) = Some False"
proof -
  from climate_update_hvac_mode[OF override_snapshot_facts, of False None]
  obtain e' where
    e': "climate_handle_coordinator_update override_snapshot (example_climate False None) = Inr e'"
    by blast
  from preset_from_low_mode_flag[OF e']
  have "ce_attr_preset_mode e' = Some ''away''"
    by (simp add: override_snapshot_def example_snapshot_def CLIMATE_PRESET_AWAY_def)
  with e' show ?thesis
    by (simp add: override_snapshot_def example_snapshot_def example_state_def
        make_circuit_state_def example_reading_def)
qed

subsection \<open>Power switch\<close>

lemma all_assigned_in_range:
  "\<forall>c\<in>set ids. 0 \<le> c \<and> c < int (length xs) \<Longrightarrow>
   all_assigned xs ids = Inr (\<forall>c\<in>set ids. xs ! nat c)"
  by (induction ids) (auto simp: py_index_def)

text \<open>
  C4 as stated fails: with summer mode active, circuit 0 assigned and circuit 1 not, the
  power switch reports on.
\<close>

theorem power_switch_on_in_summer_mode:
  "summer_mode summer_snapshot = Some True
   \<and> power_handle_coordinator_update summer_snapshot example_power_switch
       = Inr (example_power_switch\<lparr>ps_attr_is_on := Some True\<rparr>)"
  by (simp add: power_handle_coordinator_update_def summer_snapshot_def example_snapshot_def
      example_power_switch_def py_index_def)

text \<open>
  C4, amended: for every snapshot whose assignment list covers the configured circuits,
  the power switch reports on if and only if summer mode is not active or not all
  configured circuits are summer-mode-assigned; it reports off exactly when summer mode
  is active and every configured circuit is assigned.
\<close>

theorem power_switch_on_iff:
  assumes "\<forall>c\<in>set (ps_circuit_ids sw). 0 \<le> c \<and> c < int (length (summer_mode_assignments data))"
  shows "power_handle_coordinator_update data sw =
     Inr (sw\<lparr>ps_attr_is_on := Some (\<not> (summer_mode data = Some True \<and>
             (\<forall>c\<in>set (ps_circuit_ids sw). summer_mode_assignments data ! nat c)))\<rparr>)"
  using all_assigned_in_range[OF assms]
  by (simp add: power_handle_coordinator_update_def)

theorem power_switch_on_iff_witness:
  "power_handle_coordinator_update all_summer_snapshot example_power_switch
     = Inr (example_power_switch\<lparr>ps_attr_is_on := Some False\<rparr>)"
  using power_switch_on_iff[of example_power_switch all_summer_snapshot]
  by (simp add: all_summer_snapshot_def example_snapshot_def example_power_switch_def)

subsection \<open>Assignment flags on the controller\<close>





subsection \<open>Away switch\<close>







subsection \<open>Climate modes on the controller\<close>

lemma set_hvac_mode_schedule_writes:
  "schedule_writes (dev_trace (async_set_hvac_mode e mode dev)) =
     schedule_writes (dev_trace dev) @
       [if mode = HEAT \<or> mode = HEAT_COOL
        then SetCircuitSchedules (ce_circuit_id e) [ce_circuit_manual_mode_schedule e] None
        else SetCircuitSchedules (ce_circuit_id e) (ce_circuit_auto_mode_daily_schedules e)
               (Some (ce_circuit_auto_mode_daily_schedules_starting_day e))]"
  by (simp add: async_set_hvac_mode_def Let_def async_request_refresh_def setCircuitSchedules_def
      setSummerModeAssignments_def setSummerMode_def schedule_writes_def)

lemma set_hvac_mode_circuit_schedules:
  "dev_circuit_schedules (async_set_hvac_mode e mode dev) (ce_circuit_id e) =
     (if mode = HEAT \<or> mode = HEAT_COOL then ([ce_circuit_manual_mode_schedule e], None)
      else (ce_circuit_auto_mode_daily_schedules e,
            Some (ce_circuit_auto_mode_daily_schedules_starting_day e)))"
  by (simp add: async_set_hvac_mode_def Let_def async_request_refresh_def setCircuitSchedules_def)

text \<open>
  C8: setting the climate mode to \<open>OFF\<close> and then to \<open>AUTO\<close> writes the configured rotation
  with the configured starting day as the circuit's schedule assignment both times (and
  no other schedule assignment), so the assignment stored on the controller afterwards
  is the configured rotation starting at the configured starting day, whatever it was
  before.
\<close>

theorem off_then_auto_restores_rotation:
  "dev_circuit_schedules (async_set_hvac_mode e AUTO (async_set_hvac_mode e OFF dev))
       (ce_circuit_id e)
     = (ce_circuit_auto_mode_daily_schedules e,
        Some (ce_circuit_auto_mode_daily_schedules_starting_day e))
   \<and> schedule_writes (dev_trace (async_set_hvac_mode e AUTO (async_set_hvac_mode e OFF dev)))
     = schedule_writes (dev_trace dev) @
         [SetCircuitSchedules (ce_circuit_id e) (ce_circuit_auto_mode_daily_schedules e)
            (Some (ce_circuit_auto_mode_daily_schedules_starting_day e)),
          SetCircuitSchedules (ce_circuit_id e) (ce_circuit_auto_mode_daily_schedules e)
            (Some (ce_circuit_auto_mode_daily_schedules_starting_day e))]"
  by (simp add: set_hvac_mode_circuit_schedules set_hvac_mode_schedule_writes)







end
